theory Spec2Isabelle
  imports Complex_Main
begin

section \<open>Robinclaw: ledger store, exchange gateway and account lifecycle\<close>

text \<open>
  A shallow embedding of \<^verbatim>\<open>models.py\<close> (the ledger store), \<^verbatim>\<open>robinclaw/trading.py\<close>
  (the exchange gateway \<^verbatim>\<open>AgentTrader\<close>) and the handlers of \<^verbatim>\<open>robinclaw/web/app.py\<close>
  that write to the ledger or call the gateway.

  Conventions of the embedding:
  \<^item> Python \<^verbatim>\<open>float\<close> values are idealised as \<^typ>\<open>real\<close>: rounding of binary floating
    point is not modelled, arithmetic is exact.
  \<^item> \<^verbatim>\<open>datetime\<close> values are clock readings of type \<^typ>\<open>int\<close>.
  \<^item> A raised exception is the \<open>Inl\<close> branch of a sum; a normal return is \<open>Inr\<close>.
  \<^item> The SQLite tables are lists of rows in row order.
\<close>

subsection \<open>The ledger store (models.py)\<close>

type_synonym datetime = int

text \<open>
  The dataclass \<^verbatim>\<open>Agent\<close>. The field \<^verbatim>\<open>id\<close> is called \<open>aid\<close> here (\<open>id\<close> is the identity
  function of HOL). \<^verbatim>\<open>status\<close> is a string in the source and stays one:
  \<^verbatim>\<open>'pending_deposit'\<close>, \<^verbatim>\<open>'active'\<close>, \<^verbatim>\<open>'closed'\<close>.
\<close>

record agent =
  aid :: string
  name :: string
  wallet_address :: string
  private_key_encrypted :: string
  api_key_hash :: string
  deposit_amount :: real
  deposit_tx :: "string option"
  created_at :: datetime
  status :: string
  closed_at :: "datetime option"
  final_equity :: "real option"
  final_pnl :: "real option"
  final_pnl_pct :: "real option"
  withdrawal_tx :: "string option"
  withdrawal_address :: "string option"

text \<open>The dataclass \<^verbatim>\<open>Trade\<close>; \<^verbatim>\<open>id\<close>, \<^verbatim>\<open>symbol\<close>, \<^verbatim>\<open>side\<close>, \<^verbatim>\<open>size\<close>, \<^verbatim>\<open>price\<close> and
  \<^verbatim>\<open>timestamp\<close> carry the prefix \<open>trade_\<close>.\<close>

record trade =
  trade_id :: int
  agent_id :: string
  trade_symbol :: string
  trade_side :: string
  trade_size :: real
  trade_price :: real
  realized_pnl :: real
  trade_timestamp :: datetime

text \<open>
  The keyword arguments of \<^verbatim>\<open>update_agent_status\<close>: one optional value per nullable column
  of the \<^verbatim>\<open>agents\<close> table. \<open>None\<close> stands for a keyword that is not passed or is passed as
  \<^verbatim>\<open>None\<close>; the source skips both alike.
\<close>

record kwargs =
  kw_closed_at :: "datetime option"
  kw_final_equity :: "real option"
  kw_final_pnl :: "real option"
  kw_final_pnl_pct :: "real option"
  kw_withdrawal_tx :: "string option"
  kw_withdrawal_address :: "string option"
  kw_deposit_tx :: "string option"

definition no_kwargs :: kwargs where
  "no_kwargs = \<lparr> kw_closed_at = None, kw_final_equity = None, kw_final_pnl = None,
     kw_final_pnl_pct = None, kw_withdrawal_tx = None, kw_withdrawal_address = None,
     kw_deposit_tx = None \<rparr>"

text \<open>The write statements the store executes, in the order of execution.\<close>

datatype stmt =
    InsertAgent agent
  | UpdateAgent string string kwargs
  | InsertTrade trade

text \<open>The database: the two tables and the journal of executed write statements.\<close>

record ledger =
  agents :: "agent list"
  trades :: "trade list"
  journal :: "stmt list"

text \<open>\<^verbatim>\<open>for key, value in kwargs.items(): if value is not None: updates.append(...)\<close>:
  a column is assigned only when its keyword carries a value.\<close>

definition set_columns :: "kwargs \<Rightarrow> agent \<Rightarrow> agent" where
  "set_columns kw r =
     r\<lparr> closed_at := (case kw_closed_at kw of None \<Rightarrow> closed_at r | Some v \<Rightarrow> Some v),
        final_equity := (case kw_final_equity kw of None \<Rightarrow> final_equity r | Some v \<Rightarrow> Some v),
        final_pnl := (case kw_final_pnl kw of None \<Rightarrow> final_pnl r | Some v \<Rightarrow> Some v),
        final_pnl_pct := (case kw_final_pnl_pct kw of None \<Rightarrow> final_pnl_pct r | Some v \<Rightarrow> Some v),
        withdrawal_tx := (case kw_withdrawal_tx kw of None \<Rightarrow> withdrawal_tx r | Some v \<Rightarrow> Some v),
        withdrawal_address :=
          (case kw_withdrawal_address kw of None \<Rightarrow> withdrawal_address r | Some v \<Rightarrow> Some v),
        deposit_tx := (case kw_deposit_tx kw of None \<Rightarrow> deposit_tx r | Some v \<Rightarrow> Some v) \<rparr>"

text \<open>\<^verbatim>\<open>UPDATE agents SET status = ?, ... WHERE id = ?\<close> on one row.\<close>

definition update_row :: "string \<Rightarrow> string \<Rightarrow> kwargs \<Rightarrow> agent \<Rightarrow> agent" where
  "update_row i st kw r = (if aid r = i then set_columns kw (r\<lparr>status := st\<rparr>) else r)"

text \<open>
  \<^verbatim>\<open>update_agent_status(agent_id, status, **kwargs)\<close>. The Python function returns
  \<^verbatim>\<open>None\<close> on every path: the result is the unit value paired with the database after the
  statement.
\<close>

definition update_agent_status :: "ledger \<Rightarrow> string \<Rightarrow> string \<Rightarrow> kwargs \<Rightarrow> unit \<times> ledger" where
  "update_agent_status d i st kw =
     ((), d\<lparr> agents := map (update_row i st kw) (agents d),
               journal := journal d @ [UpdateAgent i st kw] \<rparr>)"

text \<open>\<^verbatim>\<open>get_agent\<close>, \<^verbatim>\<open>get_agent_by_name\<close>, \<^verbatim>\<open>get_agent_by_api_key_hash\<close>:
  \<^verbatim>\<open>fetchone()\<close> of a \<^verbatim>\<open>SELECT\<close> is the first matching row.\<close>

definition get_agent :: "ledger \<Rightarrow> string \<Rightarrow> agent option" where
  "get_agent d i = find (\<lambda>r. aid r = i) (agents d)"


definition get_agent_by_api_key_hash :: "ledger \<Rightarrow> string \<Rightarrow> agent option" where
  "get_agent_by_api_key_hash d h = find (\<lambda>r. api_key_hash r = h) (agents d)"

text \<open>SQL aggregates: \<^verbatim>\<open>SUM\<close> over no rows is \<^verbatim>\<open>NULL\<close>; Python's \<^verbatim>\<open>x or 0\<close> turns
  \<^verbatim>\<open>None\<close> (and a zero) into \<open>0\<close>.\<close>

definition sql_sum :: "'a::monoid_add list \<Rightarrow> 'a option" where
  "sql_sum xs = (if xs = [] then None else Some (sum_list xs))"

definition or_zero :: "'a::zero option \<Rightarrow> 'a" where
  "or_zero v = (case v of None \<Rightarrow> 0 | Some x \<Rightarrow> (if x = 0 then 0 else x))"

record stats =
  total_trades :: nat
  winning_trades :: nat
  win_rate :: real
  total_pnl :: real

definition trades_of :: "ledger \<Rightarrow> string \<Rightarrow> trade list" where
  "trades_of d i = filter (\<lambda>t. agent_id t = i) (trades d)"

definition get_agent_stats :: "ledger \<Rightarrow> string \<Rightarrow> stats" where
  "get_agent_stats d i =
     (let rows = trades_of d i;
          total = or_zero (Some (length rows));
          wins = or_zero (sql_sum (map (\<lambda>t. if realized_pnl t > 0 then (1::nat) else 0) rows));
          pnl = or_zero (sql_sum (map realized_pnl rows))
      in \<lparr> total_trades = total,
           winning_trades = wins,
           win_rate = (if total > 0 then real wins / real total * 100 else 0),
           total_pnl = pnl \<rparr>)"

subsection \<open>The exchange SDK as one trader reaches it\<close>

text \<open>
  \<^verbatim>\<open>AgentTrader\<close> talks to the exchange through \<^verbatim>\<open>self.info\<close> and \<^verbatim>\<open>self.exchange\<close> of the
  Hyperliquid SDK, which are not part of this repository. They are a parameter of the model:
  an oracle that answers each call from the history of the calls made before it, either with
  a decoded response (\<open>Inr\<close>) or with a raised exception (\<open>Inl\<close>). A response is taken as
  decoded: every field the code reads holds the value that \<^verbatim>\<open>float()\<close>, \<^verbatim>\<open>int()\<close> or
  \<^verbatim>\<open>str()\<close> gives for it, and a response on which such a conversion raises is an \<open>Inl\<close>.
  Every call, answered or not, is appended to the history.
\<close>

datatype exn = Exception string

record raw_position =
  coin :: string
  szi :: real
  entryPx :: real
  positionValue :: real
  unrealizedPnl :: real
  leverage_value :: int

record user_state_resp =
  accountValue :: real
  totalMarginUsed :: real
  withdrawable_field :: real
  assetPositions :: "raw_position list"

record raw_order =
  oid :: int
  order_coin :: string
  order_side :: string
  sz :: real
  limitPx :: real
  orderType :: string

text \<open>The order type argument: \<^verbatim>\<open>{"limit": {"tif": ..., "reduceOnly": ...}}\<close>, the second key
  optional.\<close>

datatype order_type = Limit (tif: string) (reduceOnly: "bool option")

text \<open>The first entry of \<^verbatim>\<open>statuses\<close> of an order response: it has the key \<^verbatim>\<open>filled\<close>
  (with \<^verbatim>\<open>oid\<close> as text, \<^verbatim>\<open>totalSz\<close>, \<^verbatim>\<open>avgPx\<close>), the key \<^verbatim>\<open>resting\<close> (with \<^verbatim>\<open>oid\<close>), or
  neither.\<close>

datatype order_status = Filled string real real | Resting string | Neither

text \<open>An order response: \<^verbatim>\<open>result["status"]\<close>, the list \<^verbatim>\<open>statuses\<close>, and the texts that
  Python prints for \<^verbatim>\<open>statuses\<close> and for the whole \<^verbatim>\<open>result\<close>.\<close>

record order_resp =
  resp_status :: string
  statuses :: "order_status list"
  statuses_text :: string
  result_text :: string

datatype sdk_call =
    UserState
  | AllMids
  | OpenOrders
  | Order string bool real real order_type
  | Cancel string int
  | UpdateLeverage int string bool

type_synonym history = "sdk_call list"

record sdk =
  info_user_state :: "history \<Rightarrow> exn + user_state_resp"
  info_all_mids :: "history \<Rightarrow> exn + (string \<rightharpoonup> real)"
  info_open_orders :: "history \<Rightarrow> exn + raw_order list"
  exchange_order :: "history \<Rightarrow> string \<Rightarrow> bool \<Rightarrow> real \<Rightarrow> real \<Rightarrow> order_type \<Rightarrow> exn + order_resp"
  exchange_cancel :: "history \<Rightarrow> string \<Rightarrow> int \<Rightarrow> exn + string"
  exchange_update_leverage :: "history \<Rightarrow> int \<Rightarrow> string \<Rightarrow> bool \<Rightarrow> exn + string"

subsection \<open>The exchange gateway (robinclaw/trading.py)\<close>

text \<open>The dataclass \<^verbatim>\<open>OrderResult\<close>.\<close>

record order_result =
  success :: bool
  order_id :: "string option"
  message :: string
  filled_size :: real
  avg_price :: real

text \<open>\<^verbatim>\<open>OrderResult(success=..., message=...)\<close> with the other fields at their defaults.\<close>

definition failed :: "string \<Rightarrow> order_result" where
  "failed msg = \<lparr> success = False, order_id = None, message = msg,
                  filled_size = 0, avg_price = 0 \<rparr>"

text \<open>The dataclass \<^verbatim>\<open>PositionInfo\<close>; its \<^verbatim>\<open>size\<close> is \<open>psize\<close> here.\<close>

record position_info =
  symbol :: string
  psize :: real
  entry_price :: real
  mark_price :: real
  unrealized_pnl :: real
  leverage :: int

record balance =
  account_value :: real
  total_margin_used :: real
  withdrawable :: real

record open_order =
  oo_order_id :: int
  oo_symbol :: string
  oo_side :: string
  oo_size :: real
  oo_price :: real
  oo_order_type :: string

text \<open>\<^verbatim>\<open>try: ... except Exception as e: return handler(e)\<close> around a computation that
  returns its value and the history.\<close>

definition try_except :: "(exn + 'a) \<times> history \<Rightarrow> (exn \<Rightarrow> 'a) \<Rightarrow> (exn + 'a) \<times> history" where
  "try_except m handler =
     (case m of (Inl e, h) \<Rightarrow> (Inr (handler e), h) | (Inr v, h) \<Rightarrow> (Inr v, h))"

definition get_balance :: "sdk \<Rightarrow> history \<Rightarrow> (exn + balance) \<times> history" where
  "get_balance x h =
     (case info_user_state x h of
        Inl e \<Rightarrow> (Inl e, h @ [UserState])
      | Inr state \<Rightarrow>
          (Inr \<lparr> account_value = accountValue state,
                 total_margin_used = totalMarginUsed state,
                 withdrawable = withdrawable_field state \<rparr>, h @ [UserState]))"

definition to_position :: "raw_position \<Rightarrow> position_info" where
  "to_position p =
     \<lparr> symbol = coin p, psize = szi p, entry_price = entryPx p,
       mark_price = (if szi p \<noteq> 0 then positionValue p / \<bar>szi p\<bar> else 0),
       unrealized_pnl = unrealizedPnl p, leverage = leverage_value p \<rparr>"

definition get_positions :: "sdk \<Rightarrow> history \<Rightarrow> (exn + position_info list) \<times> history" where
  "get_positions x h =
     (case info_user_state x h of
        Inl e \<Rightarrow> (Inl e, h @ [UserState])
      | Inr state \<Rightarrow>
          (Inr (map to_position (filter (\<lambda>p. szi p \<noteq> 0) (assetPositions state))),
           h @ [UserState]))"

definition to_open_order :: "raw_order \<Rightarrow> open_order" where
  "to_open_order r =
     \<lparr> oo_order_id = oid r, oo_symbol = order_coin r,
       oo_side = (if order_side r = ''B'' then ''buy'' else ''sell''),
       oo_size = sz r, oo_price = limitPx r, oo_order_type = orderType r \<rparr>"

definition get_open_orders :: "sdk \<Rightarrow> history \<Rightarrow> (exn + open_order list) \<times> history" where
  "get_open_orders x h =
     (case info_open_orders x h of
        Inl e \<Rightarrow> (Inl e, h @ [OpenOrders])
      | Inr orders \<Rightarrow> (Inr (map to_open_order orders), h @ [OpenOrders]))"

text \<open>Python's \<^verbatim>\<open>round(x, n)\<close> on an exact value: to the nearest multiple of \<open>10\<^sup>-\<^sup>n\<close>, a tie
  going to the even one.\<close>

definition round_half_even :: "real \<Rightarrow> int" where
  "round_half_even x =
     (let f = \<lfloor>x\<rfloor>; d = x - of_int f
      in if d < 1 / 2 then f else if d > 1 / 2 then f + 1 else if even f then f else f + 1)"

definition py_round :: "real \<Rightarrow> nat \<Rightarrow> real" where
  "py_round x n = of_int (round_half_even (x * 10 ^ n)) / 10 ^ n"

text \<open>What \<^verbatim>\<open>market_order\<close> returns for a response of \<^verbatim>\<open>self.exchange.order\<close>.\<close>

definition market_result :: "order_resp \<Rightarrow> order_result" where
  "market_result result =
     (if resp_status result = ''ok'' then
        (case statuses result of
           Filled i total_sz avg_px # _ \<Rightarrow>
             \<lparr> success = True, order_id = Some i, message = ''Order filled'',
               filled_size = total_sz, avg_price = avg_px \<rparr>
         | Resting i # _ \<Rightarrow>
             \<lparr> success = True, order_id = Some i,
               message = ''Order placed (partial fill or resting)'',
               filled_size = 0, avg_price = 0 \<rparr>
         | _ \<Rightarrow> failed (''Order not filled: '' @ statuses_text result))
      else failed (''Order failed: '' @ result_text result))"

text \<open>The limit price of a market order, before and after \<^verbatim>\<open>round(limit_price, 2)\<close>.\<close>

definition slippage_price :: "bool \<Rightarrow> real \<Rightarrow> real \<Rightarrow> real" where
  "slippage_price is_buy mid_price slippage =
     (if is_buy then mid_price * (1 + slippage) else mid_price * (1 - slippage))"

definition limit_price_of :: "bool \<Rightarrow> real \<Rightarrow> real \<Rightarrow> real" where
  "limit_price_of is_buy mid_price slippage = py_round (slippage_price is_buy mid_price slippage) 2"

text \<open>The body of the \<^verbatim>\<open>try\<close> block of \<^verbatim>\<open>market_order\<close>.\<close>

definition market_order_body ::
  "sdk \<Rightarrow> history \<Rightarrow> string \<Rightarrow> string \<Rightarrow> real \<Rightarrow> real \<Rightarrow> (exn + order_result) \<times> history" where
  "market_order_body x h symb side sz' slippage =
     (let is_buy = (side = ''buy'') in
      case info_all_mids x h of
        Inl e \<Rightarrow> (Inl e, h @ [AllMids])
      | Inr all_mids \<Rightarrow>
          (case all_mids symb of
             None \<Rightarrow> (Inr (failed (''Unknown symbol: '' @ symb)), h @ [AllMids])
           | Some mid_price \<Rightarrow>
               (let limit_price = limit_price_of is_buy mid_price slippage;
                    h1 = h @ [AllMids];
                    h2 = h1 @ [Order symb is_buy sz' limit_price (Limit ''Ioc'' None)]
                in case exchange_order x h1 symb is_buy sz' limit_price (Limit ''Ioc'' None) of
                     Inl e \<Rightarrow> (Inl e, h2)
                   | Inr result \<Rightarrow> (Inr (market_result result), h2))))"

definition error_result :: "exn \<Rightarrow> order_result" where
  "error_result e = (case e of Exception text \<Rightarrow> failed (''Error: '' @ text))"

definition market_order ::
  "sdk \<Rightarrow> history \<Rightarrow> string \<Rightarrow> string \<Rightarrow> real \<Rightarrow> real \<Rightarrow> (exn + order_result) \<times> history" where
  "market_order x h symb side sz' slippage =
     try_except (market_order_body x h symb side sz' slippage) error_result"

definition limit_result :: "order_resp \<Rightarrow> order_result" where
  "limit_result result =
     (if resp_status result = ''ok'' then
        (case statuses result of
           Resting i # _ \<Rightarrow>
             \<lparr> success = True, order_id = Some i, message = ''Limit order placed'',
               filled_size = 0, avg_price = 0 \<rparr>
         | Filled i total_sz avg_px # _ \<Rightarrow>
             \<lparr> success = True, order_id = Some i, message = ''Order filled immediately'',
               filled_size = total_sz, avg_price = avg_px \<rparr>
         | _ \<Rightarrow> failed (''Unexpected response: '' @ statuses_text result))
      else failed (''Order failed: '' @ result_text result))"

definition limit_order ::
  "sdk \<Rightarrow> history \<Rightarrow> string \<Rightarrow> string \<Rightarrow> real \<Rightarrow> real \<Rightarrow> bool \<Rightarrow> (exn + order_result) \<times> history" where
  "limit_order x h symb side sz' price reduce_only =
     try_except
       (let is_buy = (side = ''buy'');
            order_type = Limit ''Gtc'' (if reduce_only then Some True else None);
            h1 = h @ [Order symb is_buy sz' price order_type]
        in case exchange_order x h symb is_buy sz' price order_type of
             Inl e \<Rightarrow> (Inl e, h1)
           | Inr result \<Rightarrow> (Inr (limit_result result), h1))
       error_result"

text \<open>\<^verbatim>\<open>close_position\<close>: the call of \<^verbatim>\<open>get_positions\<close> stands outside any \<^verbatim>\<open>try\<close>.
  \<^verbatim>\<open>next((p for p in positions if p.symbol == symbol), None)\<close> is the first match.\<close>

definition close_position ::
  "sdk \<Rightarrow> history \<Rightarrow> string \<Rightarrow> real \<Rightarrow> (exn + order_result) \<times> history" where
  "close_position x h symb slippage =
     (case get_positions x h of
        (Inl e, h1) \<Rightarrow> (Inl e, h1)
      | (Inr positions, h1) \<Rightarrow>
          (case find (\<lambda>p. symbol p = symb) positions of
             None \<Rightarrow> (Inr (failed (''No position in '' @ symb)), h1)
           | Some position \<Rightarrow>
               market_order x h1 symb (if psize position > 0 then ''sell'' else ''buy'')
                 \<bar>psize position\<bar> slippage))"

definition cancel_order :: "sdk \<Rightarrow> history \<Rightarrow> string \<Rightarrow> int \<Rightarrow> (exn + bool) \<times> history" where
  "cancel_order x h symb i =
     try_except
       (case exchange_cancel x h symb i of
          Inl e \<Rightarrow> (Inl e, h @ [Cancel symb i])
        | Inr st \<Rightarrow> (Inr (st = ''ok''), h @ [Cancel symb i]))
       (\<lambda>e. False)"

text \<open>The loop of \<^verbatim>\<open>cancel_all_orders\<close>, with the counter \<^verbatim>\<open>cancelled\<close>.\<close>

fun cancel_loop :: "sdk \<Rightarrow> history \<Rightarrow> open_order list \<Rightarrow> nat \<Rightarrow> (exn + nat) \<times> history" where
  "cancel_loop x h [] cancelled = (Inr cancelled, h)"
| "cancel_loop x h (order # orders) cancelled =
     (case cancel_order x h (oo_symbol order) (oo_order_id order) of
        (Inl e, h1) \<Rightarrow> (Inl e, h1)
      | (Inr ok, h1) \<Rightarrow> cancel_loop x h1 orders (if ok then cancelled + 1 else cancelled))"

definition cancel_all_orders ::
  "sdk \<Rightarrow> history \<Rightarrow> string option \<Rightarrow> (exn + nat) \<times> history" where
  "cancel_all_orders x h symb =
     (case get_open_orders x h of
        (Inl e, h1) \<Rightarrow> (Inl e, h1)
      | (Inr orders, h1) \<Rightarrow>
          cancel_loop x h1
            (case symb of
               None \<Rightarrow> orders
             | Some s \<Rightarrow> if s \<noteq> [] then filter (\<lambda>order. oo_symbol order = s) orders else orders)
            0)"

definition set_leverage ::
  "sdk \<Rightarrow> history \<Rightarrow> string \<Rightarrow> int \<Rightarrow> bool \<Rightarrow> (exn + bool) \<times> history" where
  "set_leverage x h symb lev is_cross =
     try_except
       (case exchange_update_leverage x h lev symb is_cross of
          Inl e \<Rightarrow> (Inl e, h @ [UpdateLeverage lev symb is_cross])
        | Inr st \<Rightarrow> (Inr (st = ''ok''), h @ [UpdateLeverage lev symb is_cross]))
       (\<lambda>e. False)"

subsection \<open>The handlers (robinclaw/web/app.py)\<close>

text \<open>
  A handler either returns a response or raises: an \<^verbatim>\<open>HTTPException\<close> with a status code and
  a detail, or an exception that nothing catches (the framework answers 500).
\<close>

datatype http_error = HTTPException nat string | Unhandled exn

text \<open>What a handler can change: the database and the history of exchange calls.\<close>

record world =
  db :: ledger
  calls :: history


text \<open>\<^verbatim>\<open>get_agent_from_api_key\<close>; the first argument is SHA-256 as a function from the key
  to its hexadecimal digest. The header is \<open>None\<close> when the request has none.\<close>

definition get_agent_from_api_key ::
  "(string \<Rightarrow> string) \<Rightarrow> ledger \<Rightarrow> string option \<Rightarrow> http_error + agent" where
  "get_agent_from_api_key sha256 d api_key =
     (case api_key of
        None \<Rightarrow> Inl (HTTPException 401 ''Invalid API key format'')
      | Some k \<Rightarrow>
          if k = [] \<or> take 3 k \<noteq> ''rc_'' then Inl (HTTPException 401 ''Invalid API key format'')
          else (case get_agent_by_api_key_hash d (sha256 k) of
                  None \<Rightarrow> Inl (HTTPException 401 ''Invalid API key'')
                | Some a \<Rightarrow> Inr a))"

text \<open>
  Request bodies are taken as a well-typed client sends them: \<^verbatim>\<open>symbol\<close>, \<^verbatim>\<open>side\<close>,
  \<^verbatim>\<open>type\<close> and \<^verbatim>\<open>margin_type\<close> are strings, \<^verbatim>\<open>size\<close>, \<^verbatim>\<open>price\<close> and \<^verbatim>\<open>leverage\<close> are
  numbers, and each is \<open>None\<close> when the key is missing. On such bodies \<^verbatim>\<open>float(size)\<close> and
  \<^verbatim>\<open>float(price)\<close> return their argument.
\<close>

record order_body =
  body_symbol :: "string option"
  body_side :: "string option"
  body_size :: "real option"
  body_price :: "real option"
  body_type :: "string option"

record leverage_body =
  lev_symbol :: "string option"
  lev_leverage :: "real option"
  lev_margin_type :: "string option"

text \<open>The entries of \<^verbatim>\<open>results\<close> built by \<^verbatim>\<open>api_close_account\<close>.\<close>

record closed_position =
  cp_symbol :: string
  cp_size :: real
  cp_pnl :: real

record withdrawal_note =
  wd_address :: "string option"
  wd_account_value :: real
  wd_withdrawable :: real
  wd_note :: string

record close_results =
  positions_closed :: "closed_position list"
  orders_cancelled :: nat
  withdrawal :: withdrawal_note
  errors :: "string list"

record close_account_response =
  cr_status :: string
  cr_message :: string
  cr_final_balance :: real
  cr_final_pnl :: real
  cr_results :: close_results

text \<open>The JSON bodies and pages the handlers return.\<close>

datatype response =
    OrderOk "string option" string real real
  | OrderError string
  | CloseOk string string real real
  | CloseError string string
  | LeverageOk string real string
  | LeverageError string real
  | AccountClosed close_account_response
  | RegisterFailed string
  | Registered agent string

text \<open>Python truthiness of an optional string and of an optional number.\<close>

definition truthy_str :: "string option \<Rightarrow> bool" where
  "truthy_str v = (case v of None \<Rightarrow> False | Some s \<Rightarrow> s \<noteq> [])"

definition truthy_num :: "real option \<Rightarrow> bool" where
  "truthy_num v = (case v of None \<Rightarrow> False | Some x \<Rightarrow> x \<noteq> 0)"

text \<open>\<^verbatim>\<open>int(x)\<close> of a number truncates towards zero.\<close>

definition py_int :: "real \<Rightarrow> int" where
  "py_int x = (if x \<ge> 0 then \<lfloor>x\<rfloor> else \<lceil>x\<rceil>)"

text \<open>The apostrophe, for the messages that quote a word.\<close>

definition apostrophe :: string where
  "apostrophe = [CHR 0x27]"

text \<open>
  In every handler \<^verbatim>\<open>create_trader(agent.private_key_encrypted)\<close> builds the SDK clients
  for the agent's key; the oracle \<open>x\<close> is the exchange as those clients reach it.
\<close>

definition api_place_order ::
  "(string \<Rightarrow> string) \<Rightarrow> sdk \<Rightarrow> string option \<Rightarrow> order_body \<Rightarrow> world
     \<Rightarrow> (http_error + response) \<times> world" where
  "api_place_order sha256 x api_key body w =
     (case get_agent_from_api_key sha256 (db w) api_key of
        Inl err \<Rightarrow> (Inl err, w)
      | Inr a \<Rightarrow>
          if status a \<noteq> ''active'' then
            (Inl (HTTPException 400 (''Agent is '' @ status a @ '', not active. Cannot trade.'')), w)
          else if \<not> truthy_str (body_symbol body) \<or> \<not> truthy_str (body_side body)
                  \<or> \<not> truthy_num (body_size body) then
            (Inl (HTTPException 400 ''Missing required fields: symbol, side, size''), w)
          else if the (body_side body) \<noteq> ''buy'' \<and> the (body_side body) \<noteq> ''sell'' then
            (Inl (HTTPException 400
               (''side must be '' @ apostrophe @ ''buy'' @ apostrophe @ '' or '' @ apostrophe
                  @ ''sell'' @ apostrophe)), w)
          else
            (let symb = the (body_symbol body); side = the (body_side body);
                 sz' = the (body_size body);
                 order_type = (case body_type body of None \<Rightarrow> ''market'' | Some t \<Rightarrow> t);
                 (r, h) = (if order_type = ''market'' \<or> body_price body = None
                           then market_order x (calls w) symb side sz' (5 / 100)
                           else limit_order x (calls w) symb side sz' (the (body_price body)) False)
             in case r of
                  Inl e \<Rightarrow> (Inl (Unhandled e), w\<lparr>calls := h\<rparr>)
                | Inr result \<Rightarrow>
                    if success result then
                      (Inr (OrderOk (order_id result) (message result) (filled_size result)
                              (avg_price result)), w\<lparr>calls := h\<rparr>)
                    else (Inr (OrderError (message result)), w\<lparr>calls := h\<rparr>)))"

definition api_close_position ::
  "(string \<Rightarrow> string) \<Rightarrow> sdk \<Rightarrow> string option \<Rightarrow> string option \<Rightarrow> world
     \<Rightarrow> (http_error + response) \<times> world" where
  "api_close_position sha256 x api_key body_sym w =
     (case get_agent_from_api_key sha256 (db w) api_key of
        Inl err \<Rightarrow> (Inl err, w)
      | Inr a \<Rightarrow>
          if status a \<noteq> ''active'' then
            (Inl (HTTPException 400 (''Agent is '' @ status a @ '', not active.'')), w)
          else if \<not> truthy_str body_sym then
            (Inl (HTTPException 400 ''Missing required field: symbol''), w)
          else
            (case close_position x (calls w) (the body_sym) (5 / 100) of
               (Inl e, h) \<Rightarrow> (Inl (Unhandled e), w\<lparr>calls := h\<rparr>)
             | (Inr result, h) \<Rightarrow>
                 if success result then
                   (Inr (CloseOk (message result) (the body_sym) (filled_size result)
                           (avg_price result)), w\<lparr>calls := h\<rparr>)
                 else (Inr (CloseError (message result) (the body_sym)), w\<lparr>calls := h\<rparr>)))"

definition api_set_leverage ::
  "(string \<Rightarrow> string) \<Rightarrow> sdk \<Rightarrow> string option \<Rightarrow> leverage_body \<Rightarrow> world
     \<Rightarrow> (http_error + response) \<times> world" where
  "api_set_leverage sha256 x api_key body w =
     (case get_agent_from_api_key sha256 (db w) api_key of
        Inl err \<Rightarrow> (Inl err, w)
      | Inr a \<Rightarrow>
          if \<not> truthy_str (lev_symbol body) \<or> lev_leverage body = None then
            (Inl (HTTPException 400 ''Missing required fields: symbol, leverage''), w)
          else
            (let symb = the (lev_symbol body); lev = the (lev_leverage body);
                 margin_type = (case lev_margin_type body of None \<Rightarrow> ''cross'' | Some m \<Rightarrow> m)
             in if margin_type \<noteq> ''cross'' \<and> margin_type \<noteq> ''isolated'' then
                  (Inl (HTTPException 400
                     (''margin_type must be '' @ apostrophe @ ''cross'' @ apostrophe @ '' or ''
                        @ apostrophe @ ''isolated'' @ apostrophe)), w)
                else
                  (case set_leverage x (calls w) symb (py_int lev) (margin_type = ''cross'') of
                     (Inl e, h) \<Rightarrow> (Inl (Unhandled e), w\<lparr>calls := h\<rparr>)
                   | (Inr ok, h) \<Rightarrow>
                       if ok then (Inr (LeverageOk symb lev margin_type), w\<lparr>calls := h\<rparr>)
                       else (Inr (LeverageError symb lev), w\<lparr>calls := h\<rparr>))))"

text \<open>Step 1 of \<^verbatim>\<open>api_close_account\<close>: the loop over the positions, with the lists
  \<^verbatim>\<open>results["positions_closed"]\<close> and \<^verbatim>\<open>results["errors"]\<close> it appends to.\<close>

fun close_all_positions ::
  "sdk \<Rightarrow> history \<Rightarrow> position_info list \<Rightarrow> closed_position list \<Rightarrow> string list
     \<Rightarrow> (exn + closed_position list \<times> string list) \<times> history" where
  "close_all_positions x h [] pclosed errs = (Inr (pclosed, errs), h)"
| "close_all_positions x h (pos # rest) pclosed errs =
     (if psize pos \<noteq> 0 then
        (case close_position x h (symbol pos) (5 / 100) of
           (Inl e, h1) \<Rightarrow> (Inl e, h1)
         | (Inr close_result, h1) \<Rightarrow>
             if success close_result then
               close_all_positions x h1 rest
                 (pclosed @ [\<lparr> cp_symbol = symbol pos, cp_size = psize pos,
                              cp_pnl = unrealized_pnl pos \<rparr>]) errs
             else
               close_all_positions x h1 rest pclosed
                 (errs @ [''Failed to close '' @ symbol pos @ '': '' @ message close_result]))
      else close_all_positions x h rest pclosed errs)"

text \<open>Step 5: the final P&L and its percentage.\<close>

definition deposit_of :: "agent \<Rightarrow> real" where
  "deposit_of a = (if deposit_amount a \<noteq> 0 then deposit_amount a else 0)"

definition final_pnl_of :: "agent \<Rightarrow> real \<Rightarrow> real" where
  "final_pnl_of a final_balance = final_balance - deposit_of a"

definition final_pnl_pct_of :: "agent \<Rightarrow> real \<Rightarrow> real" where
  "final_pnl_pct_of a final_balance =
     (if deposit_of a > 0 then final_pnl_of a final_balance / deposit_of a * 100 else 0)"

definition closing_kwargs :: "agent \<Rightarrow> real \<Rightarrow> datetime \<Rightarrow> kwargs" where
  "closing_kwargs a final_balance now =
     no_kwargs\<lparr> kw_final_equity := Some final_balance,
                kw_final_pnl := Some (final_pnl_of a final_balance),
                kw_final_pnl_pct := Some (final_pnl_pct_of a final_balance),
                kw_closed_at := Some now \<rparr>"

text \<open>\<^verbatim>\<open>api_close_account\<close>; \<open>now\<close> is the reading of \<^verbatim>\<open>datetime.now(timezone.utc)\<close>.\<close>

definition api_close_account ::
  "(string \<Rightarrow> string) \<Rightarrow> sdk \<Rightarrow> datetime \<Rightarrow> string option \<Rightarrow> world
     \<Rightarrow> (http_error + response) \<times> world" where
  "api_close_account sha256 x now api_key w =
     (case get_agent_from_api_key sha256 (db w) api_key of
        Inl err \<Rightarrow> (Inl err, w)
      | Inr a \<Rightarrow>
          if status a = ''closed'' then (Inl (HTTPException 400 ''Account already closed.''), w)
          else
            (case get_positions x (calls w) of
               (Inl e, h1) \<Rightarrow> (Inl (Unhandled e), w\<lparr>calls := h1\<rparr>)
             | (Inr positions, h1) \<Rightarrow>
            (case close_all_positions x h1 positions [] [] of
               (Inl e, h2) \<Rightarrow> (Inl (Unhandled e), w\<lparr>calls := h2\<rparr>)
             | (Inr (pclosed, errs), h2) \<Rightarrow>
            (case cancel_all_orders x h2 None of
               (Inl e, h3) \<Rightarrow> (Inl (Unhandled e), w\<lparr>calls := h3\<rparr>)
             | (Inr cancelled_count, h3) \<Rightarrow>
            (case get_balance x h3 of
               (Inl e, h4) \<Rightarrow> (Inl (Unhandled e), w\<lparr>calls := h4\<rparr>)
             | (Inr balance_info, h4) \<Rightarrow>
                 (let final_balance = account_value balance_info;
                      results = \<lparr> positions_closed = pclosed,
                                  orders_cancelled = cancelled_count,
                                  withdrawal =
                                    \<lparr> wd_address = withdrawal_address a,
                                      wd_account_value = final_balance,
                                      wd_withdrawable = withdrawable balance_info,
                                      wd_note =
                                        ''Manual withdrawal may be required via Hyperliquid UI'' \<rparr>,
                                  errors = errs \<rparr>;
                      (u, d) = update_agent_status (db w) (aid a) ''closed''
                                 (closing_kwargs a final_balance now)
                  in (Inr (AccountClosed
                        \<lparr> cr_status = (if errs \<noteq> [] then ''partial'' else ''ok''),
                          cr_message = (if errs \<noteq> [] then ''Account closed with some errors''
                                        else ''Account closed successfully''),
                          cr_final_balance = final_balance,
                          cr_final_pnl = final_pnl_of a final_balance,
                          cr_results = results \<rparr>),
                      \<lparr> db = d, calls = h4 \<rparr>)))))))"





subsection \<open>Notions used in the statements\<close>







subsection \<open>Example data\<close>

text \<open>The agent of the repository's test fixture, a stand-in for SHA-256, and exchanges
  with fixed answers.\<close>

definition example_sha256 :: "string \<Rightarrow> string" where
  "example_sha256 k = ''sha256:'' @ k"

definition example_agent :: agent where
  "example_agent =
     \<lparr> aid = ''test-agent-123'', name = ''TestAgent'',
       wallet_address = ''0x1234567890abcdef1234567890abcdef12345678'',
       private_key_encrypted = ''encrypted_key_here'',
       api_key_hash = ''sha256:rc_test_api_key_12345'',
       deposit_amount = 1000, deposit_tx = Some ''0xdeposit123'', created_at = 0,
       status = ''active'', closed_at = None, final_equity = None, final_pnl = None,
       final_pnl_pct = None, withdrawal_tx = None, withdrawal_address = None \<rparr>"

definition example_key :: "string option" where
  "example_key = Some ''rc_test_api_key_12345''"

definition example_trade :: "int \<Rightarrow> string \<Rightarrow> real \<Rightarrow> trade" where
  "example_trade n i pnl =
     \<lparr> trade_id = n, agent_id = i, trade_symbol = ''BTC'', trade_side = ''buy'',
       trade_size = 1, trade_price = 100, realized_pnl = pnl, trade_timestamp = n \<rparr>"

definition example_ledger :: "agent list \<Rightarrow> ledger" where
  "example_ledger rows =
     \<lparr> agents = rows,
       trades = [example_trade 1 ''test-agent-123'' 5, example_trade 2 ''other'' 7,
                 example_trade 3 ''test-agent-123'' 0, example_trade 4 ''test-agent-123'' (- 2)],
       journal = [] \<rparr>"

definition example_world :: "agent list \<Rightarrow> world" where
  "example_world rows = \<lparr> db = example_ledger rows, calls = [] \<rparr>"

definition example_position :: "string \<Rightarrow> real \<Rightarrow> raw_position" where
  "example_position c s =
     \<lparr> coin = c, szi = s, entryPx = 100, positionValue = 100 * \<bar>s\<bar>, unrealizedPnl = 50,
       leverage_value = 1 \<rparr>"

definition example_state :: "raw_position list \<Rightarrow> real \<Rightarrow> user_state_resp" where
  "example_state ps v =
     \<lparr> accountValue = v, totalMarginUsed = 0, withdrawable_field = v, assetPositions = ps \<rparr>"

definition example_fill :: order_resp where
  "example_fill =
     \<lparr> resp_status = ''ok'', statuses = [Filled ''77'' 1 100],
       statuses_text = ''[filled]'', result_text = ''ok'' \<rparr>"

definition example_reject :: order_resp where
  "example_reject =
     \<lparr> resp_status = ''err'', statuses = [],
       statuses_text = ''[]'', result_text = ''Insufficient liquidity'' \<rparr>"

text \<open>An exchange that holds the given positions, quotes BTC at 10.01 and ETH at 2000, fills
  every BTC order and rejects every other one, and reports the given account value.\<close>

definition example_exchange :: "raw_position list \<Rightarrow> real \<Rightarrow> sdk" where
  "example_exchange ps v =
     \<lparr> info_user_state = (\<lambda>h. Inr (example_state ps v)),
       info_all_mids = (\<lambda>h. Inr [''BTC'' \<mapsto> 1001 / 100, ''ETH'' \<mapsto> 2000]),
       info_open_orders = (\<lambda>h. Inr []),
       exchange_order = (\<lambda>h symb is_buy s p t.
          if symb = ''BTC'' then Inr example_fill else Inr example_reject),
       exchange_cancel = (\<lambda>h symb i. Inr ''ok''),
       exchange_update_leverage = (\<lambda>h lev symb is_cross. Inr ''ok'') \<rparr>"

text \<open>An exchange that cannot be reached: every call raises.\<close>

definition unreachable_exchange :: sdk where
  "unreachable_exchange =
     \<lparr> info_user_state = (\<lambda>h. Inl (Exception ''Connection refused'')),
       info_all_mids = (\<lambda>h. Inl (Exception ''Connection refused'')),
       info_open_orders = (\<lambda>h. Inl (Exception ''Connection refused'')),
       exchange_order = (\<lambda>h symb is_buy s p t. Inl (Exception ''Connection refused'')),
       exchange_cancel = (\<lambda>h symb i. Inl (Exception ''Connection refused'')),
       exchange_update_leverage =
         (\<lambda>h lev symb is_cross. Inl (Exception ''Connection refused'')) \<rparr>"

section \<open>Unfolding the examples\<close>

lemmas example_defs = example_world_def example_ledger_def example_agent_def example_key_def
  example_sha256_def example_exchange_def example_position_def example_state_def
  example_fill_def example_reject_def unreachable_exchange_def example_trade_def

lemmas gateway_defs = get_positions_def get_balance_def get_open_orders_def close_position_def
  market_order_def market_order_body_def try_except_def market_result_def limit_price_of_def
  slippage_price_def py_round_def round_half_even_def cancel_all_orders_def to_position_def
  failed_def error_result_def

lemmas auth_defs = get_agent_from_api_key_def get_agent_by_api_key_hash_def


section \<open>Properties of the ledger store\<close>

lemma or_zero_sql_sum: "or_zero (sql_sum xs) = sum_list xs"
  by (simp add: or_zero_def sql_sum_def)

lemma or_zero_Some: "or_zero (Some x) = x"
  by (simp add: or_zero_def)

lemma sum_list_indicator:
  "sum_list (map (\<lambda>t. if P t then (1::nat) else 0) xs) = length (filter P xs)"
  by (induction xs) simp_all

text \<open>
  C8. For every agent, \<open>get_agent_stats\<close> returns the number \<open>N\<close> of the agent's recorded
  trades as \<open>total_trades\<close>, the number \<open>w\<close> of those with \<open>realized_pnl > 0\<close> as
  \<open>winning_trades\<close> (a trade with zero P&L counts in \<open>N\<close> and not in \<open>w\<close>), \<open>w / N * 100\<close> as
  \<open>win_rate\<close> when \<open>N > 0\<close> and \<open>0\<close> when \<open>N = 0\<close>, and the sum of all \<open>realized_pnl\<close> as
  \<open>total_pnl\<close>; an agent with no trades gets \<open>{0, 0, 0, 0}\<close>.
\<close>

theorem get_agent_stats_spec:
  "get_agent_stats d i =
     \<lparr> total_trades = length (trades_of d i),
       winning_trades = length (filter (\<lambda>t. realized_pnl t > 0) (trades_of d i)),
       win_rate =
         (if length (trades_of d i) > 0
          then real (length (filter (\<lambda>t. realized_pnl t > 0) (trades_of d i)))
                 / real (length (trades_of d i)) * 100
          else 0),
       total_pnl = sum_list (map realized_pnl (trades_of d i)) \<rparr>
   \<and> (trades_of d i = [] \<longrightarrow>
        get_agent_stats d i =
          \<lparr> total_trades = 0, winning_trades = 0, win_rate = 0, total_pnl = 0 \<rparr>)"
  by (simp add: get_agent_stats_def Let_def or_zero_sql_sum or_zero_Some sum_list_indicator)

theorem get_agent_stats_spec_witness:
  "get_agent_stats (example_ledger []) ''test-agent-123'' =
     \<lparr> total_trades = 3, winning_trades = 1, win_rate = 100 / 3, total_pnl = 3 \<rparr>
   \<and> get_agent_stats (example_ledger []) ''nobody'' =
     \<lparr> total_trades = 0, winning_trades = 0, win_rate = 0, total_pnl = 0 \<rparr>"
  using get_agent_stats_spec [of "example_ledger []" "''test-agent-123''"]
        get_agent_stats_spec [of "example_ledger []" "''nobody''"]
  by (simp add: trades_of_def example_ledger_def example_trade_def)

lemma update_row_other:
  "\<not> list_ex (\<lambda>r. aid r = i) rows \<Longrightarrow> map (update_row i st kw) rows = rows"
  by (induction rows) (simp_all add: update_row_def)

text \<open>
  C10. For an agent id that no stored row has, \<open>update_agent_status\<close> returns as it does for
  any other id (the Python \<^verbatim>\<open>None\<close>, no error branch exists) and leaves both tables as they
  were: the result does not tell a missing agent from an existing one.
\<close>

theorem update_agent_status_unknown_id:
  "\<not> list_ex (\<lambda>r. aid r = i) (agents d) \<Longrightarrow>
     agents (snd (update_agent_status d i st kw)) = agents d
   \<and> trades (snd (update_agent_status d i st kw)) = trades d
   \<and> fst (update_agent_status d i st kw) = ()
   \<and> fst (update_agent_status d i st kw) = fst (update_agent_status d j st kw)"
  by (simp add: update_agent_status_def update_row_other)

theorem update_agent_status_unknown_id_witness:
  "\<not> list_ex (\<lambda>r. aid r = ''no-such-agent'') (agents (example_ledger [example_agent]))
   \<and> agents (snd (update_agent_status (example_ledger [example_agent]) ''no-such-agent''
         ''closed'' no_kwargs)) = [example_agent]"
  using update_agent_status_unknown_id [of "''no-such-agent''" "example_ledger [example_agent]"
      "''closed''" no_kwargs]
  by (simp add: example_ledger_def example_agent_def)

section \<open>Properties of account closure\<close>

text \<open>
  C1. When the authenticated agent has status \<^verbatim>\<open>'closed'\<close>, \<open>api_close_account\<close> raises
  \<^verbatim>\<open>HTTPException(400, "Account already closed.")\<close> and the world after the call is the
  world before it: no exchange call was made, no statement was executed, and the agent's
  row is the same.
\<close>

theorem close_account_already_closed:
  "get_agent_from_api_key sha256 (db w) api_key = Inr a \<Longrightarrow> status a = ''closed'' \<Longrightarrow>
     api_close_account sha256 x now api_key w
       = (Inl (HTTPException 400 ''Account already closed.''), w)
   \<and> calls (snd (api_close_account sha256 x now api_key w)) = calls w
   \<and> journal (db (snd (api_close_account sha256 x now api_key w))) = journal (db w)
   \<and> get_agent (db (snd (api_close_account sha256 x now api_key w))) (aid a)
       = get_agent (db w) (aid a)"
  by (simp add: api_close_account_def)

theorem close_account_already_closed_witness:
  "api_close_account example_sha256 unreachable_exchange 0 example_key
       (example_world [example_agent\<lparr>status := ''closed''\<rparr>])
     = (Inl (HTTPException 400 ''Account already closed.''),
        example_world [example_agent\<lparr>status := ''closed''\<rparr>])"
proof -
  have auth: "get_agent_from_api_key example_sha256
      (db (example_world [example_agent\<lparr>status := ''closed''\<rparr>])) example_key
      = Inr (example_agent\<lparr>status := ''closed''\<rparr>)"
    by (simp add: get_agent_from_api_key_def example_key_def example_sha256_def
        get_agent_by_api_key_hash_def example_world_def example_ledger_def example_agent_def)
  have st: "status (example_agent\<lparr>status := ''closed''\<rparr>) = ''closed''" by simp
  from close_account_already_closed [OF auth st] show ?thesis by simp
qed

section \<open>The gateway operations that catch every exception\<close>



lemma try_except_returns: "\<exists>v h'. try_except m handler = (Inr v, h')"
  by (cases m) (auto simp: try_except_def split: sum.splits)


lemma limit_order_returns: "\<exists>r h'. limit_order x h s side q p ro = (Inr r, h')"
  unfolding limit_order_def by (rule try_except_returns)


lemma set_leverage_returns: "\<exists>ok h'. set_leverage x h s l c = (Inr ok, h')"
  unfolding set_leverage_def by (rule try_except_returns)







section \<open>The steps of account closure\<close>























section \<open>Properties of the exchange gateway\<close>











text \<open>
  C5. \<open>market_order\<close>, \<open>limit_order\<close>, \<open>cancel_order\<close> and \<open>set_leverage\<close> catch every
  exception (the lemmas \<open>market_order_returns\<close>, \<open>limit_order_returns\<close>,
  \<open>cancel_order_returns\<close>, \<open>set_leverage_returns\<close>). \<open>close_position\<close> does not: it calls
  \<open>get_positions\<close> outside any \<^verbatim>\<open>try\<close>, so with the exchange out of reach the exception of
  the account-state query leaves \<open>close_position\<close> and then the handler of \<^verbatim>\<open>/api/close\<close>,
  where \<open>market_order\<close> on the same exchange returns a failed outcome.
\<close>

theorem close_position_propagates:
  "close_position unreachable_exchange [] ''BTC'' (5 / 100)
     = (Inl (Exception ''Connection refused''), [UserState])
   \<and> api_close_position example_sha256 unreachable_exchange example_key (Some ''BTC'')
       (example_world [example_agent])
     = (Inl (Unhandled (Exception ''Connection refused'')),
        \<lparr> db = example_ledger [example_agent], calls = [UserState] \<rparr>)
   \<and> market_order unreachable_exchange [] ''BTC'' ''sell'' 1 (5 / 100)
     = (Inr \<lparr> success = False, order_id = None, message = ''Error: Connection refused'',
              filled_size = 0, avg_price = 0 \<rparr>, [AllMids])"
  by (simp add: api_close_position_def truthy_str_def auth_defs example_defs gateway_defs)

section \<open>Properties of the handlers\<close>

lemma api_place_order_inactive:
  "get_agent_from_api_key sha256 (db w) api_key = Inr a \<Longrightarrow> status a \<noteq> ''active'' \<Longrightarrow>
     api_place_order sha256 x api_key body w =
       (Inl (HTTPException 400 (''Agent is '' @ status a @ '', not active. Cannot trade.'')), w)"
  by (simp add: api_place_order_def)

lemma api_close_position_inactive:
  "get_agent_from_api_key sha256 (db w) api_key = Inr a \<Longrightarrow> status a \<noteq> ''active'' \<Longrightarrow>
     api_close_position sha256 x api_key body_sym w =
       (Inl (HTTPException 400 (''Agent is '' @ status a @ '', not active.'')), w)"
  by (simp add: api_close_position_def)

text \<open>
  C7. \<open>api_place_order\<close> and \<open>api_close_position\<close> reject an agent that is not
  \<^verbatim>\<open>'active'\<close> before any exchange call (the lemmas \<open>api_place_order_inactive\<close> and
  \<open>api_close_position_inactive\<close>). \<open>api_set_leverage\<close> has no such check: for an agent whose
  status is \<^verbatim>\<open>'closed'\<close>, and likewise for one in \<^verbatim>\<open>'pending_deposit'\<close>, the request reaches
  the exchange as an \<^verbatim>\<open>update_leverage\<close> call and is answered with \<^verbatim>\<open>"status": "ok"\<close>.
\<close>

theorem set_leverage_ignores_status:
  "api_set_leverage example_sha256 (example_exchange [] 1500) example_key
       \<lparr> lev_symbol = Some ''BTC'', lev_leverage = Some 5, lev_margin_type = None \<rparr>
       (example_world [example_agent\<lparr>status := ''closed''\<rparr>])
     = (Inr (LeverageOk ''BTC'' 5 ''cross''),
        \<lparr> db = example_ledger [example_agent\<lparr>status := ''closed''\<rparr>],
          calls = [UpdateLeverage 5 ''BTC'' True] \<rparr>)
   \<and> api_set_leverage example_sha256 (example_exchange [] 1500) example_key
       \<lparr> lev_symbol = Some ''BTC'', lev_leverage = Some 5, lev_margin_type = None \<rparr>
       (example_world [example_agent\<lparr>status := ''pending_deposit''\<rparr>])
     = (Inr (LeverageOk ''BTC'' 5 ''cross''),
        \<lparr> db = example_ledger [example_agent\<lparr>status := ''pending_deposit''\<rparr>],
          calls = [UpdateLeverage 5 ''BTC'' True] \<rparr>)
   \<and> api_place_order example_sha256 (example_exchange [] 1500) example_key
       \<lparr> body_symbol = Some ''BTC'', body_side = Some ''buy'', body_size = Some 1,
         body_price = None, body_type = None \<rparr>
       (example_world [example_agent\<lparr>status := ''closed''\<rparr>])
     = (Inl (HTTPException 400 ''Agent is closed, not active. Cannot trade.''),
        example_world [example_agent\<lparr>status := ''closed''\<rparr>])"
  by (simp add: api_set_leverage_def api_place_order_def set_leverage_def try_except_def
      truthy_str_def py_int_def Let_def auth_defs example_defs)

theorem set_leverage_ignores_status_witness:
  "calls (snd (api_set_leverage example_sha256 (example_exchange [] 1500) example_key
       \<lparr> lev_symbol = Some ''BTC'', lev_leverage = Some 5, lev_margin_type = None \<rparr>
       (example_world [example_agent\<lparr>status := ''closed''\<rparr>])))
     = [UpdateLeverage 5 ''BTC'' True]
   \<and> status (example_agent\<lparr>status := ''closed''\<rparr>) = ''closed''"
  using set_leverage_ignores_status by simp













end
